theory Spec2Isabelle
  imports Main
begin

section \<open>Inventory service: the request handlers of index.js over the schema of init.sql\<close>

text \<open>
  The service keeps its items in the table \<open>inventory\<close> of a MySQL database and the
  photos as files in a cache directory. Every handler of index.js is a straight
  sequence of statements sent to the database and of calls on the file system; the
  model below gives each handler as a function from the state before the request to
  the effects it issues, in program order, each with the state it leaves, and the
  response it sends.

  What is outside the model: the columns \<open>created_at\<close> and \<open>updated_at\<close> (wall-clock
  time), the bytes of a photo (a file is present or absent under its path), the
  conversion of the textual route parameter \<open>:id\<close> to the number the engine compares
  with the \<open>id\<close> column (a request carries that number), JSON values of a body
  field other than a string or null, the widths of the columns, and the routes that
  touch neither the table nor the cache directory (static files, \<open>/docs\<close>, the 405
  fallback).
\<close>

subsection \<open>Values of a request\<close>

text \<open>
  A field of \<open>req.body\<close>: it is absent (JavaScript \<open>undefined\<close>), JSON \<open>null\<close>, or
  carries a value (the text of a form field).
\<close>

datatype 'a field = Undefined | Null | Val 'a

text \<open>\<open>!v\<close> for a text field: undefined, null and the empty string are falsy.\<close>

fun falsy :: "string field \<Rightarrow> bool" where
  "falsy Undefined = True"
| "falsy Null = True"
| "falsy (Val s) = (s = [])"

text \<open>\<open>v || ""\<close> for a text field.\<close>

fun or_empty :: "string field \<Rightarrow> string" where
  "or_empty (Val s) = s"
| "or_empty Undefined = []"
| "or_empty Null = []"

text \<open>
  \<open>req.body\<close> as a handler finds it: an object with the fields a parser read, or
  \<open>undefined\<close> when no parser accepted a body. The second case exists under Express 5,
  which leaves \<open>req.body\<close> unset for a request without a body; the sources pin no
  version.
\<close>

datatype 'a body = NoBody | Body 'a

text \<open>The command-line options \<open>--host\<close>, \<open>--port\<close>, \<open>--cache\<close>.\<close>

record options =
  host :: string
  port :: string
  cache :: string

subsection \<open>The table and the cache directory\<close>

text \<open>
  A row of \<open>inventory\<close> (init.sql): \<open>id INT AUTO_INCREMENT PRIMARY KEY\<close>,
  \<open>name VARCHAR(255) NOT NULL\<close>, \<open>description TEXT\<close> and \<open>photo VARCHAR(255)\<close>, the last
  two nullable (\<open>None\<close> is SQL NULL).
\<close>

record row =
  row_id :: nat
  row_name :: string
  row_description :: "string option"
  row_photo :: "string option"

text \<open>
  The state: the rows of the table in the order in which they were inserted, the next
  value of the AUTO_INCREMENT counter, and the paths of the files that exist.
\<close>

record state =
  inventory :: "row list"
  auto_increment :: nat
  files :: "string set"

text \<open>
  The environment of one request. \<open>db_ok k\<close> tells whether the engine executes the
  \<open>k\<close>-th statement the handler sends (counted from 0); a statement that is not executed
  changes nothing and makes \<open>db.execute\<close> throw, which every handler catches and answers
  with status 500. \<open>unlink_ok\<close> tells whether the file system carries out a deletion;
  the handlers pass \<open>fs.unlink\<close> a callback that ignores its error.
\<close>

record env =
  db_ok :: "nat \<Rightarrow> bool"
  unlink_ok :: bool

text \<open>\<open>path.join(options.cache, name)\<close>, for a file name without separators.\<close>

definition path_join :: "string \<Rightarrow> string \<Rightarrow> string" where
  "path_join dir f = dir @ ''/'' @ f"

text \<open>JavaScript truthiness of a nullable text column: \<open>item.photo ? ... : ...\<close>.\<close>

definition truthy :: "string option \<Rightarrow> bool" where
  "truthy v = (case v of None \<Rightarrow> False | Some s \<Rightarrow> s \<noteq> [])"

text \<open>\<open>result.description || ""\<close> for a nullable text column.\<close>

definition col_or_empty :: "string option \<Rightarrow> string" where
  "col_or_empty v = (case v of None \<Rightarrow> [] | Some s \<Rightarrow> s)"

text \<open>The decimal digits of a number, as a template literal prints \<open>${item.id}\<close>.\<close>

definition digit :: "nat \<Rightarrow> char" where
  "digit d = ''0123456789'' ! d"

fun decimal :: "nat \<Rightarrow> string" where
  "decimal n = (if n < 10 then [digit n] else decimal (n div 10) @ [digit (n mod 10)])"

declare decimal.simps [simp del]

text \<open>
  The number that a string of decimal digits denotes: the measure of what \<open>decimal\<close>
  prints.
\<close>

definition digit_value :: "char \<Rightarrow> nat" where
  "digit_value c = of_char c - 48"

definition decimal_value :: "string \<Rightarrow> nat" where
  "decimal_value s = foldl (\<lambda>a c. 10 * a + digit_value c) 0 s"

subsection \<open>Statements\<close>

text \<open>\<open>SELECT * FROM inventory WHERE id = ?\<close>\<close>

definition select_by_id :: "state \<Rightarrow> nat \<Rightarrow> row list" where
  "select_by_id st i = filter (\<lambda>r. row_id r = i) (inventory st)"

text \<open>
  \<open>SELECT * FROM inventory\<close>: there is no ORDER BY, and the engine returns the rows in the
  order in which the table holds them.
\<close>

definition select_all :: "state \<Rightarrow> row list" where
  "select_all st = inventory st"

text \<open>
  \<open>INSERT INTO inventory (name, description, photo) VALUES (?, ?, ?)\<close>: the new row takes
  the counter's value as its id, which is the statement's \<open>insertId\<close>.
\<close>

definition insert_row :: "state \<Rightarrow> string \<Rightarrow> string \<Rightarrow> string option \<Rightarrow> state" where
  "insert_row st n d p =
     st\<lparr>inventory := inventory st @
            [\<lparr>row_id = auto_increment st, row_name = n, row_description = Some d, row_photo = p\<rparr>],
        auto_increment := Suc (auto_increment st)\<rparr>"

text \<open>
  \<open>UPDATE inventory SET name = COALESCE(?, name), description = COALESCE(?, description)
  WHERE id = ?\<close>: COALESCE keeps the column when the parameter is NULL, and only then.
\<close>

definition coalesce_name :: "string field \<Rightarrow> string \<Rightarrow> string" where
  "coalesce_name v old = (case v of Val s \<Rightarrow> s | Null \<Rightarrow> old | Undefined \<Rightarrow> old)"

definition coalesce_description :: "string field \<Rightarrow> string option \<Rightarrow> string option" where
  "coalesce_description v old = (case v of Val s \<Rightarrow> Some s | Null \<Rightarrow> old | Undefined \<Rightarrow> old)"

definition update_row :: "state \<Rightarrow> nat \<Rightarrow> string field \<Rightarrow> string field \<Rightarrow> state" where
  "update_row st i n d =
     st\<lparr>inventory := map (\<lambda>r. if row_id r = i
                                then r\<lparr>row_name := coalesce_name n (row_name r),
                                       row_description := coalesce_description d (row_description r)\<rparr>
                                else r) (inventory st)\<rparr>"

text \<open>\<open>UPDATE inventory SET photo = ? WHERE id = ?\<close>\<close>

definition update_photo :: "state \<Rightarrow> nat \<Rightarrow> string \<Rightarrow> state" where
  "update_photo st i f =
     st\<lparr>inventory := map (\<lambda>r. if row_id r = i then r\<lparr>row_photo := Some f\<rparr> else r) (inventory st)\<rparr>"

text \<open>\<open>DELETE FROM inventory WHERE id = ?\<close>\<close>

definition delete_row :: "state \<Rightarrow> nat \<Rightarrow> state" where
  "delete_row st i = st\<lparr>inventory := filter (\<lambda>r. row_id r \<noteq> i) (inventory st)\<rparr>"

subsection \<open>The file system\<close>

text \<open>multer writes an uploaded file under a name it generates.\<close>

definition fs_write :: "state \<Rightarrow> string \<Rightarrow> state" where
  "fs_write st p = st\<lparr>files := insert p (files st)\<rparr>"

text \<open>
  \<open>fs.unlink(p, () => {})\<close>: the file is removed when the file system allows it; the
  result is dropped either way. The call is asynchronous and the handler does not wait
  for it: the model lets it take effect where it is issued.
\<close>

definition fs_unlink :: "env \<Rightarrow> state \<Rightarrow> string \<Rightarrow> state" where
  "fs_unlink e st p = (if unlink_ok e then st\<lparr>files := files st - {p}\<rparr> else st)"

subsection \<open>Effects and responses\<close>

datatype effect =
    FsWrite string
  | FsUnlink string
  | DbInsert nat
  | DbUpdate nat
  | DbUpdatePhoto nat string
  | DbDelete nat

text \<open>The effects a request issues, in program order, each with the state after it.\<close>

type_synonym trace = "(effect \<times> state) list"

definition final_state :: "state \<Rightarrow> trace \<Rightarrow> state" where
  "final_state st tr = (if tr = [] then st else snd (last tr))"

text \<open>
  The body of a response: \<open>{error}\<close>, \<open>{message}\<close>, \<open>{message, item}\<close> (the item is
  \<open>undefined\<close> when the SELECT found no row), \<open>{count, items}\<close> with each item's
  \<open>photoUrl\<close>, one item with its \<open>photoUrl\<close>, a file sent with a Content-Type header,
  or the page of the framework's own error handler.
\<close>

datatype payload =
    Error string
  | Message string
  | MessageItem string "row option"
  | Listing nat "(row \<times> string option) list"
  | Item row "string option"
  | File string string
  | ErrorPage

record response =
  status :: nat
  payload :: payload

definition database_error :: response where
  "database_error = \<lparr>status = 500, payload = Error ''Database error''\<rparr>"

text \<open>
  \<open>const { ... } = req.body\<close> stands before the \<open>try\<close> of its handler: with
  \<open>req.body\<close> undefined it throws a TypeError that no \<open>catch\<close> of the handler sees, and
  the framework answers 500.
\<close>

definition uncaught_type_error :: response where
  "uncaught_type_error = \<lparr>status = 500, payload = ErrorPage\<rparr>"

definition item_not_found :: response where
  "item_not_found = \<lparr>status = 404, payload = Error ''Item not found''\<rparr>"

text \<open>\<open>item.photo ? `http://localhost:3000/inventory/${item.id}/photo` : null\<close>\<close>

definition photoUrl :: "row \<Rightarrow> string option" where
  "photoUrl item =
     (if truthy (row_photo item)
      then Some (''http://localhost:3000/inventory/'' @ decimal (row_id item) @ ''/photo'')
      else None)"

text \<open>\<open>rows[0]\<close>\<close>

definition first_row :: "row list \<Rightarrow> row option" where
  "first_row rows = (case rows of [] \<Rightarrow> None | r # _ \<Rightarrow> Some r)"

text \<open>The text a field carries; used where the field is known to be truthy.\<close>

fun text_of :: "string field \<Rightarrow> string" where
  "text_of (Val s) = s"
| "text_of Undefined = []"
| "text_of Null = []"

text \<open>A value interpolated into a template literal: \<open>null\<close> prints as the word null.\<close>

definition interpolate :: "string option \<Rightarrow> string" where
  "interpolate v = (case v of None \<Rightarrow> ''null'' | Some s \<Rightarrow> s)"

subsection \<open>The upload middleware\<close>

text \<open>
  \<open>upload.single("photo")\<close> runs before the handlers of POST /register and of
  PUT /inventory/:id/photo. When the request carries a file it is written into the
  cache directory under a generated name, which the request then holds as
  \<open>req.file.filename\<close>. The name is the environment's choice and part of the request.
\<close>

definition upload_single :: "options \<Rightarrow> state \<Rightarrow> string option \<Rightarrow> trace" where
  "upload_single opts st file =
     (case file of
        None \<Rightarrow> []
      | Some f \<Rightarrow> [(FsWrite (path_join (cache opts) f), fs_write st (path_join (cache opts) f))])"

text \<open>
  multer gives every multipart request a body object, also one that carries the file
  alone; a request with a file is multipart.
\<close>

definition upload_body :: "('a field \<times> 'b field) body \<Rightarrow> string option \<Rightarrow> ('a field \<times> 'b field) body" where
  "upload_body body file =
     (case body of
        Body parsed \<Rightarrow> Body parsed
      | NoBody \<Rightarrow> (case file of None \<Rightarrow> NoBody | Some f \<Rightarrow> Body (Undefined, Undefined)))"

definition after_upload ::
  "options \<Rightarrow> state \<Rightarrow> string option \<Rightarrow> (state \<Rightarrow> trace \<times> response) \<Rightarrow> trace \<times> response" where
  "after_upload opts st file handler =
     (let pre = upload_single opts st file;
          (tr, res) = handler (final_state st pre)
      in (pre @ tr, res))"

subsection \<open>The handlers\<close>

text \<open>
  POST /register (index.js, lines 55 to 76), after the upload middleware. Line 56 reads
  the fields from \<open>req.body\<close> before the \<open>try\<close> of line 60.
\<close>

definition register ::
  "env \<Rightarrow> state \<Rightarrow> (string field \<times> string field) body \<Rightarrow> string option \<Rightarrow> trace \<times> response" where
  "register e st body file =
     (case body of
        NoBody \<Rightarrow> ([], uncaught_type_error)
      | Body (inventory_name, description) \<Rightarrow>
          if falsy inventory_name
          then ([], \<lparr>status = 400, payload = Error ''Missing inventory name''\<rparr>)
          else if \<not> db_ok e 0 then ([], database_error)
          else
            let st' = insert_row st (text_of inventory_name) (or_empty description) file;
                newItem = \<lparr>row_id = auto_increment st, row_name = text_of inventory_name,
                           row_description = Some (or_empty description), row_photo = file\<rparr>
            in ([(DbInsert (auto_increment st), st')],
                \<lparr>status = 201,
                 payload = MessageItem ''Inventory item created successfully'' (Some newItem)\<rparr>))"

text \<open>GET /inventory (lines 78 to 90).\<close>

definition get_inventory :: "env \<Rightarrow> state \<Rightarrow> trace \<times> response" where
  "get_inventory e st =
     (if \<not> db_ok e 0 then ([], database_error)
      else
        let rows = select_all st;
            itemsWithPhotoUrl = map (\<lambda>item. (item, photoUrl item)) rows
        in ([], \<lparr>status = 200, payload = Listing (length itemsWithPhotoUrl) itemsWithPhotoUrl\<rparr>))"

text \<open>GET /inventory/:id (lines 92 to 104).\<close>

definition get_item :: "env \<Rightarrow> state \<Rightarrow> nat \<Rightarrow> trace \<times> response" where
  "get_item e st i =
     (if \<not> db_ok e 0 then ([], database_error)
      else case select_by_id st i of
        [] \<Rightarrow> ([], item_not_found)
      | item # _ \<Rightarrow> ([], \<lparr>status = 200, payload = Item item (photoUrl item)\<rparr>))"

text \<open>
  PUT /inventory/:id (lines 106 to 123). Line 107 reads the fields from \<open>req.body\<close>
  before the \<open>try\<close>. The driver refuses a parameter list that holds \<open>undefined\<close>:
  \<open>db.execute\<close> throws before anything is sent, and the handler answers 500.
\<close>

definition put_item ::
  "env \<Rightarrow> state \<Rightarrow> nat \<Rightarrow> (string field \<times> string field) body \<Rightarrow> trace \<times> response" where
  "put_item e st i body =
     (case body of
        NoBody \<Rightarrow> ([], uncaught_type_error)
      | Body (name, description) \<Rightarrow>
          if \<not> db_ok e 0 then ([], database_error)
          else if select_by_id st i = [] then ([], item_not_found)
          else if name = Undefined \<or> description = Undefined \<or> \<not> db_ok e 1
          then ([], database_error)
          else
            let st' = update_row st i name description in
            if \<not> db_ok e 2 then ([(DbUpdate i, st')], database_error)
            else ([(DbUpdate i, st')],
                  \<lparr>status = 200,
                   payload = MessageItem ''Item updated successfully'' (first_row (select_by_id st' i))\<rparr>))"

text \<open>
  The two handlers that delete a photo file do it the same way:
  \<open>if (item.photo) { fs.unlink(path.join(options.cache, item.photo), () => {}); }\<close>
\<close>

definition unlink_photo :: "env \<Rightarrow> options \<Rightarrow> state \<Rightarrow> row \<Rightarrow> trace" where
  "unlink_photo e opts st item =
     (if truthy (row_photo item)
      then [(FsUnlink (path_join (cache opts) (col_or_empty (row_photo item))),
             fs_unlink e st (path_join (cache opts) (col_or_empty (row_photo item))))]
      else [])"

text \<open>DELETE /inventory/:id (lines 125 to 141).\<close>

definition delete_item :: "env \<Rightarrow> options \<Rightarrow> state \<Rightarrow> nat \<Rightarrow> trace \<times> response" where
  "delete_item e opts st i =
     (if \<not> db_ok e 0 then ([], database_error)
      else case select_by_id st i of
        [] \<Rightarrow> ([], item_not_found)
      | item # _ \<Rightarrow>
          let tr = unlink_photo e opts st item;
              st1 = final_state st tr
          in if \<not> db_ok e 1 then (tr, database_error)
             else (tr @ [(DbDelete i, delete_row st1 i)],
                   \<lparr>status = 200, payload = Message ''Item deleted successfully''\<rparr>))"

text \<open>
  GET /inventory/:id/photo (lines 143 to 163). \<open>path.resolve(options.cache, item.photo)\<close>
  names the file that \<open>path.join\<close> names.
\<close>

definition get_photo :: "env \<Rightarrow> options \<Rightarrow> state \<Rightarrow> nat \<Rightarrow> trace \<times> response" where
  "get_photo e opts st i =
     (if \<not> db_ok e 0 then ([], database_error)
      else case select_by_id st i of
        [] \<Rightarrow> ([], item_not_found)
      | item # _ \<Rightarrow>
          if \<not> truthy (row_photo item)
          then ([], \<lparr>status = 404, payload = Error ''Photo not found''\<rparr>)
          else
            let filePath = path_join (cache opts) (col_or_empty (row_photo item)) in
            if filePath \<notin> files st
            then ([], \<lparr>status = 404, payload = Error ''Photo file missing''\<rparr>)
            else ([], \<lparr>status = 200, payload = File ''image/jpeg'' filePath\<rparr>))"

text \<open>PUT /inventory/:id/photo (lines 165 to 185), after the upload middleware.\<close>

definition put_photo :: "env \<Rightarrow> options \<Rightarrow> state \<Rightarrow> nat \<Rightarrow> string option \<Rightarrow> trace \<times> response" where
  "put_photo e opts st i file =
     (if \<not> db_ok e 0 then ([], database_error)
      else case select_by_id st i of
        [] \<Rightarrow> ([], item_not_found)
      | item # _ \<Rightarrow>
          (case file of
             None \<Rightarrow> ([], \<lparr>status = 400, payload = Error ''No photo uploaded''\<rparr>)
           | Some filename \<Rightarrow>
               let tr = unlink_photo e opts st item;
                   st1 = final_state st tr
               in if \<not> db_ok e 1 then (tr, database_error)
                  else
                    let st2 = update_photo st1 i filename;
                        tr' = tr @ [(DbUpdatePhoto i filename, st2)]
                    in if \<not> db_ok e 2 then (tr', database_error)
                       else (tr', \<lparr>status = 200,
                                  payload = MessageItem ''Photo updated'' (first_row (select_by_id st2 i))\<rparr>)))"

text \<open>
  POST /search (lines 187 to 204). Line 188 reads the fields from \<open>req.body\<close> before
  the \<open>try\<close>. The id comes from the body: absent, it makes the driver throw; null, it
  matches no row.
\<close>

definition flag_set :: "string field \<Rightarrow> bool" where
  "flag_set has_photo = (has_photo = Val ''on'' \<or> has_photo = Val ''true'' \<or> has_photo = Val ''1'')"

definition search :: "env \<Rightarrow> state \<Rightarrow> (nat field \<times> string field) body \<Rightarrow> trace \<times> response" where
  "search e st body =
     (case body of
        NoBody \<Rightarrow> ([], uncaught_type_error)
      | Body (i, has_photo) \<Rightarrow>
          if i = Undefined \<or> \<not> db_ok e 0 then ([], database_error)
          else case (case i of Val n \<Rightarrow> select_by_id st n | Null \<Rightarrow> [] | Undefined \<Rightarrow> []) of
            [] \<Rightarrow> ([], item_not_found)
          | item # _ \<Rightarrow>
              let url = photoUrl item in
              if flag_set has_photo \<and> truthy (row_photo item)
              then ([], \<lparr>status = 200,
                         payload = Item (item\<lparr>row_description :=
                                     Some (col_or_empty (row_description item) @ [CHR 0x0A] @ ''Photo: '' @ interpolate url)\<rparr>) url\<rparr>)
              else ([], \<lparr>status = 200, payload = Item item url\<rparr>))"

subsection \<open>Requests\<close>

datatype request =
    Register "(string field \<times> string field) body" "string option"
  | GetInventory
  | GetItem nat
  | PutItem nat "(string field \<times> string field) body"
  | DeleteItem nat
  | GetPhoto nat
  | PutPhoto nat "string option"
  | Search "(nat field \<times> string field) body"

fun handle :: "env \<Rightarrow> options \<Rightarrow> state \<Rightarrow> request \<Rightarrow> trace \<times> response" where
  "handle e opts st (Register body file) =
     after_upload opts st file (\<lambda>st0. register e st0 (upload_body body file) file)"
| "handle e opts st GetInventory = get_inventory e st"
| "handle e opts st (GetItem i) = get_item e st i"
| "handle e opts st (PutItem i body) = put_item e st i body"
| "handle e opts st (DeleteItem i) = delete_item e opts st i"
| "handle e opts st (GetPhoto i) = get_photo e opts st i"
| "handle e opts st (PutPhoto i file) =
     after_upload opts st file (\<lambda>st0. put_photo e opts st0 i file)"
| "handle e opts st (Search body) = search e st body"

text \<open>The state a request leaves.\<close>

definition state_after :: "env \<Rightarrow> options \<Rightarrow> state \<Rightarrow> request \<Rightarrow> state" where
  "state_after e opts st req = final_state st (fst (handle e opts st req))"

text \<open>
  init.sql creates the table and inserts two rows; the cache directory starts empty.
\<close>

definition init_sql :: state where
  "init_sql =
     \<lparr>inventory =
        [\<lparr>row_id = 1, row_name = ''Blue Lady Painting'',
          row_description = Some ''Oil painting, size 50x70 cm'', row_photo = None\<rparr>,
         \<lparr>row_id = 2, row_name = ''Antique Vase'',
          row_description = Some ''Chinese vase from Ming Dynasty, 18th century'', row_photo = None\<rparr>],
      auto_increment = 3,
      files = {}\<rparr>"

text \<open>The states the service can be in: those a sequence of requests leads to.\<close>

inductive reachable :: "state \<Rightarrow> bool" where
  init: "reachable init_sql"
| request: "reachable st \<Longrightarrow> reachable (state_after e opts st req)"

subsection \<open>Sample values\<close>

text \<open>An environment in which every statement is executed and deletions are carried out.\<close>

definition all_ok :: env where
  "all_ok = \<lparr>db_ok = (\<lambda>k. True), unlink_ok = True\<rparr>"

text \<open>The defaults of the options (lines 15 to 17), with no APP_HOST, APP_PORT or CACHE_DIR set.\<close>

definition default_options :: options where
  "default_options = \<lparr>host = ''0.0.0.0'', port = ''3000'', cache = ''./cache''\<rparr>"

text \<open>
  The state after init.sql and one registration of an item with a photo, which multer
  stored as \<open>3f9c\<close>.
\<close>

definition with_photo :: state where
  "with_photo =
     \<lparr>inventory = inventory init_sql @
        [\<lparr>row_id = 3, row_name = ''Desk Lamp'', row_description = Some ''Brass'', row_photo = Some ''3f9c''\<rparr>],
      auto_increment = 4,
      files = {''./cache/3f9c''}\<rparr>"

subsection \<open>The invariant of the table\<close>

text \<open>
  The rows stand in ascending order of their ids, and every id is below the counter.
\<close>

definition ids_ascending :: "state \<Rightarrow> bool" where
  "ids_ascending st =
     (sorted_wrt (<) (map row_id (inventory st)) \<and>
      list_all (\<lambda>r. row_id r < auto_increment st) (inventory st))"

subsection \<open>Dangling references\<close>

text \<open>
  The row of the given id references a photo whose file is not in the cache directory.
\<close>

definition dangling :: "options \<Rightarrow> state \<Rightarrow> nat \<Rightarrow> bool" where
  "dangling opts st i =
     list_ex (\<lambda>r. truthy (row_photo r) \<and>
                   path_join (cache opts) (col_or_empty (row_photo r)) \<notin> files st)
       (select_by_id st i)"

subsection \<open>The in-memory variant of the partial update\<close>

text \<open>
  The second document of init.sql is the service over an array in memory. Its handler of
  PUT /inventory/:id assigns a field only when the argument is truthy:
  \<open>if (name) item.name = name; if (description) item.description = description;\<close>
\<close>

definition assign_if_truthy :: "string field \<Rightarrow> string \<Rightarrow> string" where
  "assign_if_truthy v old = (if falsy v then old else text_of v)"

section \<open>Properties\<close>

subsection \<open>Unfolding\<close>

lemmas handler_defs = register_def get_inventory_def get_item_def put_item_def delete_item_def
  get_photo_def put_photo_def search_def after_upload_def upload_single_def upload_body_def
  unlink_photo_def final_state_def database_error_def item_not_found_def uncaught_type_error_def

lemmas stmt_defs = select_by_id_def select_all_def insert_row_def update_row_def update_photo_def delete_row_def
  fs_write_def fs_unlink_def

lemmas value_defs = truthy_def col_or_empty_def path_join_def photoUrl_def first_row_def
  interpolate_def flag_set_def coalesce_name_def coalesce_description_def digit_def

lemmas sample_defs = all_ok_def default_options_def with_photo_def init_sql_def

subsection \<open>The final state of a trace\<close>

lemma final_state_append:
  "final_state st (tr @ tr') = final_state (final_state st tr) tr'"
  by (simp add: final_state_def)

lemma final_state_single: "final_state st [(ef, s)] = s"
  by (simp add: final_state_def)

lemma final_state_Nil: "final_state st [] = st"
  by (simp add: final_state_def)

lemma final_state_after_upload:
  "final_state st (fst (after_upload opts st file h)) =
     final_state (final_state st (upload_single opts st file))
       (fst (h (final_state st (upload_single opts st file))))"
  by (simp add: after_upload_def Let_def final_state_append split: prod.splits)

subsection \<open>Ids ascend in every reachable state\<close>

lemma ids_ascending_init_sql: "ids_ascending init_sql"
  by (simp add: ids_ascending_def init_sql_def)

lemma ids_ascending_insert_row: "ids_ascending st \<Longrightarrow> ids_ascending (insert_row st n d p)"
  by (auto simp: ids_ascending_def insert_row_def sorted_wrt_append list_all_iff less_Suc_eq)

lemma row_id_update_row:
  "row_id \<circ> (\<lambda>r. if row_id r = i then r\<lparr>row_name := a r, row_description := b r\<rparr> else r) = row_id"
  by (rule ext) simp

lemma row_id_update_photo:
  "row_id \<circ> (\<lambda>r. if row_id r = i then r\<lparr>row_photo := p\<rparr> else r) = row_id"
  by (rule ext) simp

lemma ids_ascending_update_row: "ids_ascending st \<Longrightarrow> ids_ascending (update_row st i n d)"
  by (auto simp: ids_ascending_def update_row_def row_id_update_row list_all_iff)

lemma ids_ascending_update_photo: "ids_ascending st \<Longrightarrow> ids_ascending (update_photo st i f)"
  by (auto simp: ids_ascending_def update_photo_def row_id_update_photo list_all_iff)

lemma ids_ascending_delete_row: "ids_ascending st \<Longrightarrow> ids_ascending (delete_row st i)"
  by (auto simp: ids_ascending_def delete_row_def sorted_wrt_map sorted_wrt_filter list_all_iff)

lemma ids_ascending_fs_write: "ids_ascending st \<Longrightarrow> ids_ascending (fs_write st p)"
  by (simp add: ids_ascending_def fs_write_def)

lemma ids_ascending_fs_unlink: "ids_ascending st \<Longrightarrow> ids_ascending (fs_unlink e st p)"
  by (simp add: ids_ascending_def fs_unlink_def)

lemma ids_ascending_upload:
  "ids_ascending st \<Longrightarrow> ids_ascending (final_state st (upload_single opts st file))"
  by (auto simp: upload_single_def final_state_def ids_ascending_fs_write split: option.splits)

lemma ids_ascending_unlink_photo:
  "ids_ascending st \<Longrightarrow> ids_ascending (final_state st (unlink_photo e opts st item))"
  by (auto simp: unlink_photo_def final_state_def ids_ascending_fs_unlink)

lemma ids_ascending_register:
  "ids_ascending st \<Longrightarrow> ids_ascending (final_state st (fst (register e st body file)))"
  by (simp add: register_def final_state_Nil final_state_single Let_def ids_ascending_insert_row
      split: body.splits prod.splits)

lemma ids_ascending_put_item:
  "ids_ascending st \<Longrightarrow> ids_ascending (final_state st (fst (put_item e st i body)))"
  by (simp add: put_item_def final_state_Nil final_state_single Let_def ids_ascending_update_row
      split: body.splits prod.splits)

lemma ids_ascending_delete_item:
  "ids_ascending st \<Longrightarrow> ids_ascending (final_state st (fst (delete_item e opts st i)))"
  by (auto simp: delete_item_def final_state_Nil final_state_single final_state_append Let_def
      ids_ascending_delete_row ids_ascending_unlink_photo split: list.splits)

lemma ids_ascending_put_photo:
  "ids_ascending st \<Longrightarrow> ids_ascending (final_state st (fst (put_photo e opts st i file)))"
  by (auto simp: put_photo_def final_state_Nil final_state_single final_state_append Let_def
      ids_ascending_update_photo ids_ascending_unlink_photo split: list.splits option.splits)

lemma ids_ascending_state_after:
  "ids_ascending st \<Longrightarrow> ids_ascending (state_after e opts st req)"
proof (cases req)
  case (Register body upload)
  assume "ids_ascending st"
  then show ?thesis
    using Register by (simp add: state_after_def final_state_after_upload ids_ascending_upload ids_ascending_register)
next
  case GetInventory
  assume "ids_ascending st"
  then show ?thesis
    using GetInventory by (simp add: state_after_def get_inventory_def final_state_Nil Let_def)
next
  case (GetItem i)
  assume "ids_ascending st"
  then show ?thesis
    using GetItem by (simp add: state_after_def get_item_def final_state_Nil split: list.splits)
next
  case (PutItem i body)
  assume "ids_ascending st"
  then show ?thesis
    using PutItem by (simp add: state_after_def ids_ascending_put_item)
next
  case (DeleteItem i)
  assume "ids_ascending st"
  then show ?thesis
    using DeleteItem by (simp add: state_after_def ids_ascending_delete_item)
next
  case (GetPhoto i)
  assume "ids_ascending st"
  then show ?thesis
    using GetPhoto by (simp add: state_after_def get_photo_def final_state_Nil Let_def split: list.splits)
next
  case (PutPhoto i f)
  assume "ids_ascending st"
  then show ?thesis
    using PutPhoto by (simp add: state_after_def final_state_after_upload ids_ascending_upload ids_ascending_put_photo)
next
  case (Search body)
  assume "ids_ascending st"
  then show ?thesis
    using Search
    by (simp add: state_after_def search_def final_state_Nil Let_def
        split: body.splits prod.splits list.splits)
qed

lemma reachable_ids_ascending: "reachable st \<Longrightarrow> ids_ascending st"
  by (induction rule: reachable.induct) (simp_all add: ids_ascending_init_sql ids_ascending_state_after)

subsection \<open>Listing\<close>

text \<open>
  C7. In every state the service can reach, a GET /inventory that answers 200 returns
  the rows in the order in which they were inserted, which is the strictly ascending
  order of their ids, and \<open>count\<close> is the number of items returned. The request
  issues no effect.
\<close>

theorem get_inventory_insertion_order:
  assumes "reachable st" and "handle e opts st GetInventory = (tr, res)" and "status res = 200"
  shows "\<exists>items. payload res = Listing (length items) items \<and> map fst items = inventory st \<and>
           sorted_wrt (<) (map (\<lambda>(item, url). row_id item) items) \<and> tr = []"
proof -
  have asc: "sorted_wrt (<) (map row_id (inventory st))"
    using reachable_ids_ascending [OF assms(1)] by (simp add: ids_ascending_def)
  let ?items = "map (\<lambda>item. (item, photoUrl item)) (inventory st)"
  have ok: "db_ok e 0"
    using assms(2,3) by (auto simp: get_inventory_def database_error_def split: if_splits)
  then have "payload res = Listing (length ?items) ?items" and "tr = []"
    using assms(2) by (auto simp: get_inventory_def select_all_def Let_def)
  moreover have "map fst ?items = inventory st"
    by (simp add: comp_def)
  moreover have "sorted_wrt (<) (map (\<lambda>(item, url). row_id item) ?items)"
    using asc by (simp add: comp_def)
  ultimately show ?thesis by blast
qed

theorem get_inventory_insertion_order_witness:
  "reachable (state_after all_ok default_options init_sql
       (Register (Body (Val ''Desk Lamp'', Val ''Brass'')) (Some ''3f9c''))) \<and>
   (\<exists>items. payload (snd (handle all_ok default_options (state_after all_ok default_options init_sql
       (Register (Body (Val ''Desk Lamp'', Val ''Brass'')) (Some ''3f9c''))) GetInventory)) = Listing 3 items \<and>
      map (\<lambda>(item, url). row_id item) items = [1, 2, 3])"
proof -
  let ?st = "state_after all_ok default_options init_sql
       (Register (Body (Val ''Desk Lamp'', Val ''Brass'')) (Some ''3f9c''))"
  have st: "?st = with_photo"
    by (simp add: state_after_def handler_defs stmt_defs value_defs sample_defs)
  have r: "reachable ?st"
    by (rule reachable.request) (rule reachable.init)
  obtain tr res where h: "handle all_ok default_options ?st GetInventory = (tr, res)"
    by (cases "handle all_ok default_options ?st GetInventory")
  have s: "status res = 200"
    using h by (auto simp: get_inventory_def all_ok_def Let_def)
  from get_inventory_insertion_order [OF r h s]
  obtain items where i: "payload res = Listing (length items) items" "map fst items = inventory ?st"
    by blast
  have "map (\<lambda>(item, url). row_id item) items = map row_id (map fst items)"
    by (simp add: comp_def case_prod_unfold)
  also have "\<dots> = [1, 2, 3]"
    unfolding i(2) st by (simp add: with_photo_def init_sql_def)
  finally have ids: "map (\<lambda>(item, url). row_id item) items = [1, 2, 3]" .
  then have "length items = 3"
    by (metis length_map length_Cons list.size(3) numeral_3_eq_3)
  with i(1) ids h r show ?thesis by auto
qed

subsection \<open>Serving a photo\<close>

text \<open>
  C9. Whenever GET /inventory/:id/photo answers with the file, the Content-Type header
  is \<open>image/jpeg\<close>: the handler sets it before \<open>sendFile\<close> and nothing inspects the
  file that was uploaded.
\<close>

theorem get_photo_content_type:
  assumes "handle e opts st (GetPhoto i) = (tr, res)"
  shows "(status res = 200 \<longrightarrow> (\<exists>p. payload res = File ''image/jpeg'' p)) \<and>
         (\<forall>ct p. payload res = File ct p \<longrightarrow> ct = ''image/jpeg'')"
  using assms
  by (auto simp: get_photo_def database_error_def item_not_found_def Let_def
      split: if_splits list.splits)

theorem get_photo_content_type_witness:
  "handle all_ok default_options with_photo (GetPhoto 3)
     = ([], \<lparr>status = 200, payload = File ''image/jpeg'' ''./cache/3f9c''\<rparr>)"
  using get_photo_content_type [of all_ok default_options with_photo 3 "[]"
      "\<lparr>status = 200, payload = File ''image/jpeg'' ''./cache/3f9c''\<rparr>"]
  by (simp add: handler_defs stmt_defs value_defs sample_defs)

subsection \<open>Decimal numerals\<close>

text \<open>
  \<open>decimal\<close> prints a number as its numeral in base ten: digits only, no leading zero,
  and the numeral denotes the number.
\<close>

lemma digit_cases:
  assumes "d < 10"
  shows "digit_value (digit d) = d \<and> digit d \<in> set ''0123456789'' \<and> (digit d = CHR ''0'' \<longrightarrow> d = 0)"
proof -
  from assms have "d \<in> {0, 1, 2, 3, 4, 5, 6, 7, 8, 9}" by auto
  then show ?thesis
    by (auto simp: digit_def digit_value_def)
qed

lemma decimal_value_snoc: "decimal_value (s @ [c]) = 10 * decimal_value s + digit_value c"
  by (simp add: decimal_value_def)

lemma decimal_value_decimal: "decimal_value (decimal n) = n"
proof (induction n rule: decimal.induct)
  case (1 n)
  show ?case
  proof (cases "n < 10")
    case True
    then show ?thesis
      by (subst decimal.simps) (simp add: decimal_value_def digit_cases)
  next
    case False
    then have "decimal_value (decimal (n div 10)) = n div 10"
      using "1" by simp
    moreover have "digit_value (digit (n mod 10)) = n mod 10"
      by (simp add: digit_cases)
    ultimately show ?thesis
      using False by (subst decimal.simps) (simp add: decimal_value_snoc)
  qed
qed

lemma decimal_digits: "set (decimal n) \<subseteq> set ''0123456789''"
proof (induction n rule: decimal.induct)
  case (1 n)
  have m: "digit (n mod 10) \<in> set ''0123456789''"
    by (rule digit_cases [THEN conjunct2, THEN conjunct1]) simp
  show ?case
  proof (cases "n < 10")
    case True
    then have "digit n \<in> set ''0123456789''"
      by (rule digit_cases [THEN conjunct2, THEN conjunct1])
    with True show ?thesis
      by (subst decimal.simps) simp
  next
    case False
    with "1" have "set (decimal (n div 10)) \<subseteq> set ''0123456789''" by simp
    with m False show ?thesis
      by (subst decimal.simps) simp
  qed
qed

lemma decimal_not_Nil: "decimal n \<noteq> []"
  by (subst decimal.simps) simp

lemma decimal_leading: "0 < n \<Longrightarrow> hd (decimal n) \<noteq> CHR ''0''"
proof (induction n rule: decimal.induct)
  case (1 n)
  show ?case
  proof (cases "n < 10")
    case True
    with "1.prems" have "digit n \<noteq> CHR ''0''"
      using digit_cases [of n] by auto
    with True show ?thesis
      by (subst decimal.simps) simp
  next
    case False
    then have "0 < n div 10" by simp
    with "1.IH" False have "hd (decimal (n div 10)) \<noteq> CHR ''0''" by simp
    with False show ?thesis
      by (subst decimal.simps) (simp add: decimal_not_Nil)
  qed
qed

subsection \<open>The derived photo URL\<close>

text \<open>
  C10. For every item with a photo, whatever the options \<open>--host\<close> and \<open>--port\<close>, the
  SELECT being executed: GET /inventory/:id answers 200 with the item and the
  \<open>photoUrl\<close> \<open>http://localhost:3000/inventory/{id}/photo\<close>; POST /search for its id
  answers 200 with the item's id, name and photo and the same \<open>photoUrl\<close>;
  GET /inventory answers 200 with every row of the table, each with that URL of its own
  id when it has a photo and with null when it has none, the item among them. \<open>{id}\<close> is
  the id in base ten.
\<close>

theorem photoUrl_fixed:
  assumes "db_ok e 0" and "select_by_id st i = item # rest" and "truthy (row_photo item)"
  shows "handle e opts st (GetItem i) =
           ([], \<lparr>status = 200,
                 payload = Item item
                   (Some (''http://localhost:3000/inventory/'' @ decimal (row_id item) @ ''/photo''))\<rparr>) \<and>
         (\<exists>shown. handle e opts st (Search (Body (Val i, has_photo))) =
           ([], \<lparr>status = 200,
                 payload = Item shown
                   (Some (''http://localhost:3000/inventory/'' @ decimal (row_id item) @ ''/photo''))\<rparr>) \<and>
            row_id shown = row_id item \<and> row_name shown = row_name item \<and>
            row_photo shown = row_photo item) \<and>
         handle e opts st GetInventory =
           ([], \<lparr>status = 200,
                 payload = Listing (length (inventory st))
                   (map (\<lambda>r. (r, if truthy (row_photo r)
                                   then Some (''http://localhost:3000/inventory/'' @ decimal (row_id r) @ ''/photo'')
                                   else None)) (inventory st))\<rparr>) \<and>
         (item, Some (''http://localhost:3000/inventory/'' @ decimal (row_id item) @ ''/photo'')) \<in>
           set (map (\<lambda>r. (r, if truthy (row_photo r)
                                   then Some (''http://localhost:3000/inventory/'' @ decimal (row_id r) @ ''/photo'')
                                   else None)) (inventory st)) \<and>
         decimal_value (decimal (row_id item)) = row_id item \<and>
         set (decimal (row_id item)) \<subseteq> set ''0123456789'' \<and>
         (0 < row_id item \<longrightarrow> hd (decimal (row_id item)) \<noteq> CHR ''0'')"
proof -
  let ?url = "\<lambda>r. ''http://localhost:3000/inventory/'' @ decimal (row_id r) @ ''/photo''"
  have u: "photoUrl r = (if truthy (row_photo r) then Some (?url r) else None)" for r
    by (simp add: photoUrl_def)
  have g: "handle e opts st (GetItem i) = ([], \<lparr>status = 200, payload = Item item (Some (?url item))\<rparr>)"
    using assms by (simp add: get_item_def u)
  have s: "\<exists>shown. handle e opts st (Search (Body (Val i, has_photo))) =
           ([], \<lparr>status = 200, payload = Item shown (Some (?url item))\<rparr>) \<and>
            row_id shown = row_id item \<and> row_name shown = row_name item \<and>
            row_photo shown = row_photo item"
    using assms by (cases "flag_set has_photo") (simp_all add: search_def u Let_def)
  have l: "handle e opts st GetInventory =
           ([], \<lparr>status = 200,
                 payload = Listing (length (inventory st))
                   (map (\<lambda>r. (r, if truthy (row_photo r) then Some (?url r) else None)) (inventory st))\<rparr>)"
    using assms(1) by (simp add: get_inventory_def select_all_def Let_def u)
  have "item \<in> set (select_by_id st i)"
    by (simp add: assms(2))
  then have "item \<in> set (inventory st)"
    by (simp add: select_by_id_def)
  then have m: "(item, Some (?url item)) \<in>
      set (map (\<lambda>r. (r, if truthy (row_photo r) then Some (?url r) else None)) (inventory st))"
    using assms(3) by (auto simp: image_iff)
  have z: "0 < row_id item \<longrightarrow> hd (decimal (row_id item)) \<noteq> CHR ''0''"
    by (simp add: decimal_leading)
  show ?thesis
    by (intro conjI g s l m decimal_value_decimal decimal_digits z)
qed

theorem photoUrl_fixed_witness:
  "handle all_ok \<lparr>host = ''192.168.0.7'', port = ''8080'', cache = ''./cache''\<rparr>
     \<lparr>inventory = [\<lparr>row_id = 1203, row_name = ''Desk Lamp'', row_description = Some ''Brass'',
                     row_photo = Some ''3f9c''\<rparr>],
      auto_increment = 1204, files = {''./cache/3f9c''}\<rparr> (GetItem 1203) =
     ([], \<lparr>status = 200,
           payload = Item \<lparr>row_id = 1203, row_name = ''Desk Lamp'', row_description = Some ''Brass'',
                           row_photo = Some ''3f9c''\<rparr>
                          (Some ''http://localhost:3000/inventory/1203/photo'')\<rparr>) \<and>
   handle all_ok \<lparr>host = ''192.168.0.7'', port = ''8080'', cache = ''./cache''\<rparr>
     \<lparr>inventory = [\<lparr>row_id = 1203, row_name = ''Desk Lamp'', row_description = Some ''Brass'',
                     row_photo = Some ''3f9c''\<rparr>],
      auto_increment = 1204, files = {''./cache/3f9c''}\<rparr> GetInventory =
     ([], \<lparr>status = 200,
           payload = Listing 1
             [(\<lparr>row_id = 1203, row_name = ''Desk Lamp'', row_description = Some ''Brass'',
                row_photo = Some ''3f9c''\<rparr>,
               Some ''http://localhost:3000/inventory/1203/photo'')]\<rparr>) \<and>
   handle all_ok \<lparr>host = ''192.168.0.7'', port = ''8080'', cache = ''./cache''\<rparr>
     \<lparr>inventory = [\<lparr>row_id = 1203, row_name = ''Desk Lamp'', row_description = Some ''Brass'',
                     row_photo = Some ''3f9c''\<rparr>],
      auto_increment = 1204, files = {''./cache/3f9c''}\<rparr> (Search (Body (Val 1203, Undefined))) =
     ([], \<lparr>status = 200,
           payload = Item \<lparr>row_id = 1203, row_name = ''Desk Lamp'', row_description = Some ''Brass'',
                           row_photo = Some ''3f9c''\<rparr>
                          (Some ''http://localhost:3000/inventory/1203/photo'')\<rparr>) \<and>
   decimal_value ''1203'' = 1203"
proof -
  let ?opts = "\<lparr>host = ''192.168.0.7'', port = ''8080'', cache = ''./cache''\<rparr>"
  let ?item = "\<lparr>row_id = 1203, row_name = ''Desk Lamp'', row_description = Some ''Brass'',
                 row_photo = Some ''3f9c''\<rparr>"
  let ?st = "\<lparr>inventory = [?item], auto_increment = 1204, files = {''./cache/3f9c''}\<rparr>"
  have ok: "db_ok all_ok 0" by (simp add: all_ok_def)
  have sel: "select_by_id ?st 1203 = ?item # []"
    by (simp add: select_by_id_def)
  have t: "truthy (row_photo ?item)"
    by (simp add: truthy_def)
  have d: "decimal 1203 = ''1203''"
    by (simp add: decimal.simps digit_def)
  have srch: "handle all_ok ?opts ?st (Search (Body (Val 1203, Undefined))) =
      ([], \<lparr>status = 200, payload = Item ?item (photoUrl ?item)\<rparr>)"
    by (simp add: search_def sel ok flag_set_def)
  note photoUrl_fixed [OF ok sel t, of ?opts Undefined]
  then show ?thesis
    using srch by (simp add: d photoUrl_def truthy_def)
qed

subsection \<open>File operations leave the table alone\<close>

lemma select_by_id_fs_write: "select_by_id (fs_write st p) i = select_by_id st i"
  by (simp add: select_by_id_def fs_write_def)

lemma select_by_id_fs_unlink: "select_by_id (fs_unlink e st p) i = select_by_id st i"
  by (simp add: select_by_id_def fs_unlink_def)

subsection \<open>Registration\<close>




subsection \<open>A photo for an id that does not exist\<close>

text \<open>
  C8. PUT /inventory/:id/photo with a file, for an id that no row has: the response is
  404, the table is unchanged, so that a blob no row referenced before is referenced
  by no row afterwards, and the uploaded file stays in the cache directory.
\<close>

theorem put_photo_unknown_id:
  assumes "db_ok e 0" and "select_by_id st i = []"
    and "handle e opts st (PutPhoto i (Some f)) = (tr, res)"
  shows "status res = 404 \<and> payload res = Error ''Item not found'' \<and>
         tr = [(FsWrite (path_join (cache opts) f), fs_write st (path_join (cache opts) f))] \<and>
         inventory (final_state st tr) = inventory st \<and>
         ((\<forall>r \<in> set (inventory st). row_photo r \<noteq> Some f) \<longrightarrow>
          (\<forall>r \<in> set (inventory (final_state st tr)). row_photo r \<noteq> Some f)) \<and>
         path_join (cache opts) f \<in> files (final_state st tr)"
proof -
  let ?p = "path_join (cache opts) f"
  have "handle e opts st (PutPhoto i (Some f)) = ([(FsWrite ?p, fs_write st ?p)], item_not_found)"
    using assms(1,2)
    by (simp add: after_upload_def upload_single_def final_state_single put_photo_def
        select_by_id_fs_write)
  with assms(3) have tr: "tr = [(FsWrite ?p, fs_write st ?p)]" and res: "res = item_not_found"
    by simp_all
  show ?thesis
    by (simp add: tr res item_not_found_def final_state_single fs_write_def)
qed

theorem put_photo_unknown_id_witness:
  "select_by_id with_photo 99 = [] \<and>
   handle all_ok default_options with_photo (PutPhoto 99 (Some ''77aa'')) =
     ([(FsWrite ''./cache/77aa'', with_photo\<lparr>files := {''./cache/77aa'', ''./cache/3f9c''}\<rparr>)],
      \<lparr>status = 404, payload = Error ''Item not found''\<rparr>) \<and>
   map row_photo (inventory (state_after all_ok default_options with_photo (PutPhoto 99 (Some ''77aa'')))) =
     [None, None, Some ''3f9c'']"
proof -
  have ok: "db_ok all_ok 0" by (simp add: all_ok_def)
  have sel: "select_by_id with_photo 99 = []"
    by (simp add: select_by_id_def with_photo_def init_sql_def)
  have h: "handle all_ok default_options with_photo (PutPhoto 99 (Some ''77aa'')) =
     ([(FsWrite ''./cache/77aa'', with_photo\<lparr>files := {''./cache/77aa'', ''./cache/3f9c''}\<rparr>)],
      \<lparr>status = 404, payload = Error ''Item not found''\<rparr>)"
    by (simp add: handler_defs stmt_defs value_defs sample_defs)
  from put_photo_unknown_id [OF ok sel h]
  have "inventory (final_state with_photo
          [(FsWrite ''./cache/77aa'', with_photo\<lparr>files := {''./cache/77aa'', ''./cache/3f9c''}\<rparr>)]) =
        inventory with_photo"
    by blast
  then have "inventory (state_after all_ok default_options with_photo (PutPhoto 99 (Some ''77aa''))) =
        inventory with_photo"
    by (simp only: state_after_def h fst_conv)
  then show ?thesis
    using sel h by (simp add: with_photo_def init_sql_def)
qed

subsection \<open>Search\<close>

lemma search_without_body:
  "handle e opts st (Search NoBody) = ([], \<lparr>status = 500, payload = ErrorPage\<rparr>)"
  by (simp add: search_def uncaught_type_error_def)

text \<open>
  C4. POST /search for the id of an existing item, the SELECT being executed: the
  description in the response is the stored description (or the empty string when it
  is null) followed by a line break, \<open>Photo: \<close> and the photo URL if and only if
  \<open>has_photo\<close> is one of the strings \<open>on\<close>, \<open>true\<close>, \<open>1\<close> and the item has a photo;
  otherwise it is the stored description. The search issues no effect, the state is
  unchanged, and a GET /inventory/:id after it returns the row with its stored
  description.
\<close>

theorem search_annotation:
  assumes "db_ok e 0" and "select_by_id st n = item # rest"
    and "handle e opts st (Search (Body (Val n, has_photo))) = (tr, res)"
  shows "\<exists>shown url. status res = 200 \<and> payload res = Item shown url \<and>
           (row_description shown =
              Some (col_or_empty (row_description item) @ [CHR 0x0A] @ ''Photo: '' @
                    ''http://localhost:3000/inventory/'' @ decimal (row_id item) @ ''/photo'')
            \<longleftrightarrow> (has_photo = Val ''on'' \<or> has_photo = Val ''true'' \<or> has_photo = Val ''1'') \<and>
                truthy (row_photo item)) \<and>
           (\<not> ((has_photo = Val ''on'' \<or> has_photo = Val ''true'' \<or> has_photo = Val ''1'') \<and>
                truthy (row_photo item)) \<longrightarrow> row_description shown = row_description item) \<and>
           tr = [] \<and> final_state st tr = st \<and>
           handle e opts (final_state st tr) (GetItem n) =
             ([], \<lparr>status = 200, payload = Item item (photoUrl item)\<rparr>)"
proof -
  let ?note = "[CHR 0x0A] @ ''Photo: '' @
                    ''http://localhost:3000/inventory/'' @ decimal (row_id item) @ ''/photo''"
  let ?flag = "(has_photo = Val ''on'' \<or> has_photo = Val ''true'' \<or> has_photo = Val ''1'') \<and>
                truthy (row_photo item)"
  have differs: "row_description item \<noteq> Some (col_or_empty (row_description item) @ ?note)"
    by (cases "row_description item") (simp_all add: col_or_empty_def)
  have get: "handle e opts st (GetItem n) = ([], \<lparr>status = 200, payload = Item item (photoUrl item)\<rparr>)"
    using assms(1,2) by (simp add: get_item_def)
  show ?thesis
  proof (cases ?flag)
    case True
    then have "handle e opts st (Search (Body (Val n, has_photo))) =
        ([], \<lparr>status = 200,
              payload = Item (item\<lparr>row_description := Some (col_or_empty (row_description item) @ ?note)\<rparr>)
                             (photoUrl item)\<rparr>)"
      using assms(1,2) by (simp add: search_def flag_set_def Let_def photoUrl_def interpolate_def)
    with assms(3) True get show ?thesis
      by (auto simp: final_state_Nil)
  next
    case False
    then have "handle e opts st (Search (Body (Val n, has_photo))) =
        ([], \<lparr>status = 200, payload = Item item (photoUrl item)\<rparr>)"
      using assms(1,2) by (auto simp: search_def flag_set_def Let_def)
    with assms(3) False get differs show ?thesis
      by (auto simp: final_state_Nil)
  qed
qed

theorem search_annotation_witness:
  "handle all_ok default_options with_photo (Search (Body (Val 3, Val ''on''))) =
     ([], \<lparr>status = 200,
           payload = Item \<lparr>row_id = 3, row_name = ''Desk Lamp'',
                            row_description = Some (''Brass'' @ [CHR 0x0A] @
                               ''Photo: http://localhost:3000/inventory/3/photo''),
                            row_photo = Some ''3f9c''\<rparr>
                          (Some ''http://localhost:3000/inventory/3/photo'')\<rparr>) \<and>
   handle all_ok default_options with_photo (Search (Body (Val 3, Val ''On''))) =
     ([], \<lparr>status = 200,
           payload = Item \<lparr>row_id = 3, row_name = ''Desk Lamp'', row_description = Some ''Brass'',
                            row_photo = Some ''3f9c''\<rparr>
                          (Some ''http://localhost:3000/inventory/3/photo'')\<rparr>) \<and>
   handle all_ok default_options with_photo (GetItem 3) =
     ([], \<lparr>status = 200,
           payload = Item \<lparr>row_id = 3, row_name = ''Desk Lamp'', row_description = Some ''Brass'',
                            row_photo = Some ''3f9c''\<rparr>
                          (Some ''http://localhost:3000/inventory/3/photo'')\<rparr>)"
proof -
  let ?item = "\<lparr>row_id = 3, row_name = ''Desk Lamp'', row_description = Some ''Brass'',
                 row_photo = Some ''3f9c''\<rparr>"
  have ok: "db_ok all_ok 0" by (simp add: all_ok_def)
  have sel: "select_by_id with_photo 3 = ?item # []"
    by (simp add: select_by_id_def with_photo_def init_sql_def)
  have url: "photoUrl ?item = Some ''http://localhost:3000/inventory/3/photo''"
    by (simp add: photoUrl_def truthy_def decimal.simps digit_def)
  have on: "handle all_ok default_options with_photo (Search (Body (Val 3, Val ''on''))) =
     ([], \<lparr>status = 200,
           payload = Item (?item\<lparr>row_description := Some (''Brass'' @ [CHR 0x0A] @
                               ''Photo: http://localhost:3000/inventory/3/photo'')\<rparr>)
                          (Some ''http://localhost:3000/inventory/3/photo'')\<rparr>)"
    by (simp add: search_def sel ok url flag_set_def truthy_def col_or_empty_def interpolate_def)
  have off: "handle all_ok default_options with_photo (Search (Body (Val 3, Val ''On''))) =
     ([], \<lparr>status = 200, payload = Item ?item (Some ''http://localhost:3000/inventory/3/photo'')\<rparr>)"
    by (simp add: search_def sel ok url flag_set_def)
  from search_annotation [OF ok sel on]
  have "handle all_ok default_options (final_state with_photo []) (GetItem 3) =
          ([], \<lparr>status = 200, payload = Item ?item (photoUrl ?item)\<rparr>)"
    by blast
  then have "handle all_ok default_options with_photo (GetItem 3) =
          ([], \<lparr>status = 200, payload = Item ?item (Some ''http://localhost:3000/inventory/3/photo'')\<rparr>)"
    by (simp only: final_state_Nil url)
  with on off show ?thesis by simp
qed

subsection \<open>The two ways a photo is not found\<close>

text \<open>
  C5, as claimed, says that a missing photo reference and a missing file give responses
  that cannot be told apart. They can: both have status 404, but the bodies name the
  cause.
\<close>

theorem get_photo_causes_differ:
  "snd (handle all_ok default_options with_photo (GetPhoto 1)) =
     \<lparr>status = 404, payload = Error ''Photo not found''\<rparr> \<and>
   snd (handle all_ok default_options (with_photo\<lparr>files := {}\<rparr>) (GetPhoto 3)) =
     \<lparr>status = 404, payload = Error ''Photo file missing''\<rparr> \<and>
   snd (handle all_ok default_options with_photo (GetPhoto 1)) \<noteq>
   snd (handle all_ok default_options (with_photo\<lparr>files := {}\<rparr>) (GetPhoto 3))"
  by (simp add: handler_defs stmt_defs value_defs sample_defs)

text \<open>
  C5, amended. GET /inventory/:id/photo on an existing item, the SELECT being executed:
  when the item has no photo reference the response is 404 with the error
  \<open>Photo not found\<close>; when the referenced file is not in the cache directory the
  response is 404 with the error \<open>Photo file missing\<close>. The request issues no effect.
\<close>

theorem get_photo_not_found:
  assumes "db_ok e 0" and "select_by_id st i = item # rest"
    and "handle e opts st (GetPhoto i) = (tr, res)"
  shows "(\<not> truthy (row_photo item) \<longrightarrow>
            res = \<lparr>status = 404, payload = Error ''Photo not found''\<rparr>) \<and>
         (truthy (row_photo item) \<and>
          path_join (cache opts) (col_or_empty (row_photo item)) \<notin> files st \<longrightarrow>
            res = \<lparr>status = 404, payload = Error ''Photo file missing''\<rparr>) \<and>
         tr = []"
  using assms by (auto simp: get_photo_def Let_def split: if_splits)

theorem get_photo_not_found_witness:
  "handle all_ok default_options with_photo (GetPhoto 1) =
     ([], \<lparr>status = 404, payload = Error ''Photo not found''\<rparr>) \<and>
   handle all_ok default_options (with_photo\<lparr>files := {}\<rparr>) (GetPhoto 3) =
     ([], \<lparr>status = 404, payload = Error ''Photo file missing''\<rparr>)"
proof -
  have ok: "db_ok all_ok 0" by (simp add: all_ok_def)
  have sel1: "select_by_id with_photo 1 =
      \<lparr>row_id = 1, row_name = ''Blue Lady Painting'',
        row_description = Some ''Oil painting, size 50x70 cm'', row_photo = None\<rparr> # []"
    by (simp add: select_by_id_def with_photo_def init_sql_def)
  have sel3: "select_by_id (with_photo\<lparr>files := {}\<rparr>) 3 =
      \<lparr>row_id = 3, row_name = ''Desk Lamp'', row_description = Some ''Brass'',
        row_photo = Some ''3f9c''\<rparr> # []"
    by (simp add: select_by_id_def with_photo_def init_sql_def)
  obtain tr1 res1 where h1: "handle all_ok default_options with_photo (GetPhoto 1) = (tr1, res1)"
    by (cases "handle all_ok default_options with_photo (GetPhoto 1)")
  obtain tr3 res3 where h3: "handle all_ok default_options (with_photo\<lparr>files := {}\<rparr>) (GetPhoto 3) = (tr3, res3)"
    by (cases "handle all_ok default_options (with_photo\<lparr>files := {}\<rparr>) (GetPhoto 3)")
  from get_photo_not_found [OF ok sel1 h1]
  have a: "tr1 = []" "res1 = \<lparr>status = 404, payload = Error ''Photo not found''\<rparr>"
    by (simp_all add: truthy_def)
  from get_photo_not_found [OF ok sel3 h3]
  have b: "tr3 = []" "res3 = \<lparr>status = 404, payload = Error ''Photo file missing''\<rparr>"
    by (simp_all add: truthy_def)
  show ?thesis
    unfolding h1 h3 a b by simp
qed

subsection \<open>Statements and the rows of one id\<close>

lemma select_by_id_update_photo:
  "select_by_id (update_photo st i f) i = map (\<lambda>r. r\<lparr>row_photo := Some f\<rparr>) (select_by_id st i)"
proof -
  have "filter (\<lambda>r. row_id r = i) (map (\<lambda>r. if row_id r = i then r\<lparr>row_photo := Some f\<rparr> else r) xs) =
        map (\<lambda>r. r\<lparr>row_photo := Some f\<rparr>) (filter (\<lambda>r. row_id r = i) xs)" for xs
    by (induction xs) simp_all
  then show ?thesis
    by (simp add: select_by_id_def update_photo_def)
qed

lemma select_by_id_delete_row: "select_by_id (delete_row st i) i = []"
  by (simp add: select_by_id_def delete_row_def filter_empty_conv)

subsection \<open>Replacing a photo\<close>

text \<open>
  C1, as claimed, says that the old blob is deleted only after the new reference is
  committed, so that the row never references a blob the request has deleted. The
  handler issues the deletion first: for the item with photo \<open>3f9c\<close>, the effects are
  the upload, the deletion of \<open>3f9c\<close>, then the UPDATE, and in the state after the
  second effect the row still references \<open>3f9c\<close>, whose file is gone.
\<close>

theorem put_photo_unlinks_before_update:
  "map fst (fst (handle all_ok default_options with_photo (PutPhoto 3 (Some ''77aa'')))) =
     [FsWrite ''./cache/77aa'', FsUnlink ''./cache/3f9c'', DbUpdatePhoto 3 ''77aa''] \<and>
   \<not> dangling default_options with_photo 3 \<and>
   map row_photo (select_by_id
     (snd (fst (handle all_ok default_options with_photo (PutPhoto 3 (Some ''77aa''))) ! 1)) 3) =
     [Some ''3f9c''] \<and>
   ''./cache/3f9c'' \<notin> files
     (snd (fst (handle all_ok default_options with_photo (PutPhoto 3 (Some ''77aa''))) ! 1)) \<and>
   dangling default_options
     (snd (fst (handle all_ok default_options with_photo (PutPhoto 3 (Some ''77aa''))) ! 1)) 3"
  by (simp add: handler_defs stmt_defs value_defs sample_defs dangling_def)

text \<open>
  C1, amended. PUT /inventory/:id/photo with a file, on an existing item that has a
  photo, the SELECT and the UPDATE being executed: after the upload is stored, the
  handler issues the deletion of the old blob and then commits the new reference.
  Between the two the row still references the old blob, which is gone when the file
  system carried the deletion out; after the UPDATE the rows of that id reference the
  new blob, and the response, when the final SELECT is executed, is 200 with the
  updated item.
\<close>

theorem put_photo_replace_order:
  assumes "db_ok e 0" and "db_ok e 1"
    and "select_by_id st i = item # rest" and "truthy (row_photo item)"
    and "handle e opts st (PutPhoto i (Some f)) = (tr, res)"
  shows "tr = [(FsWrite (path_join (cache opts) f), fs_write st (path_join (cache opts) f)),
               (FsUnlink (path_join (cache opts) (col_or_empty (row_photo item))),
                fs_unlink e (fs_write st (path_join (cache opts) f))
                  (path_join (cache opts) (col_or_empty (row_photo item)))),
               (DbUpdatePhoto i f,
                update_photo (fs_unlink e (fs_write st (path_join (cache opts) f))
                  (path_join (cache opts) (col_or_empty (row_photo item)))) i f)] \<and>
         select_by_id (fs_unlink e (fs_write st (path_join (cache opts) f))
                  (path_join (cache opts) (col_or_empty (row_photo item)))) i = item # rest \<and>
         (unlink_ok e \<longrightarrow> path_join (cache opts) (col_or_empty (row_photo item)) \<notin>
            files (fs_unlink e (fs_write st (path_join (cache opts) f))
                  (path_join (cache opts) (col_or_empty (row_photo item))))) \<and>
         select_by_id (final_state st tr) i = map (\<lambda>r. r\<lparr>row_photo := Some f\<rparr>) (item # rest) \<and>
         (db_ok e 2 \<longrightarrow> res = \<lparr>status = 200,
            payload = MessageItem ''Photo updated'' (Some (item\<lparr>row_photo := Some f\<rparr>))\<rparr>)"
proof -
  let ?new = "path_join (cache opts) f"
  let ?old = "path_join (cache opts) (col_or_empty (row_photo item))"
  let ?s0 = "fs_write st ?new"
  let ?s1 = "fs_unlink e ?s0 ?old"
  let ?s2 = "update_photo ?s1 i f"
  let ?tr = "[(FsWrite ?new, ?s0), (FsUnlink ?old, ?s1), (DbUpdatePhoto i f, ?s2)]"
  have sel0: "select_by_id ?s0 i = item # rest"
    using assms(3) by (simp add: select_by_id_fs_write)
  have sel1: "select_by_id ?s1 i = item # rest"
    using assms(3) by (simp add: select_by_id_fs_unlink select_by_id_fs_write)
  have sel2: "select_by_id ?s2 i = map (\<lambda>r. r\<lparr>row_photo := Some f\<rparr>) (item # rest)"
    by (simp only: select_by_id_update_photo sel1)
  have up: "upload_single opts st (Some f) = [(FsWrite ?new, ?s0)]"
    by (simp add: upload_single_def)
  have un: "unlink_photo e opts ?s0 item = [(FsUnlink ?old, ?s1)]"
    using assms(4) by (simp add: unlink_photo_def)
  have pp: "put_photo e opts ?s0 i (Some f) =
      ([(FsUnlink ?old, ?s1), (DbUpdatePhoto i f, ?s2)],
       if \<not> db_ok e 2 then database_error
       else \<lparr>status = 200, payload = MessageItem ''Photo updated'' (first_row (select_by_id ?s2 i))\<rparr>)"
    using assms(1,2) by (simp add: put_photo_def sel0 un final_state_single Let_def)
  have "handle e opts st (PutPhoto i (Some f)) =
      (?tr, if \<not> db_ok e 2 then database_error
       else \<lparr>status = 200, payload = MessageItem ''Photo updated'' (first_row (select_by_id ?s2 i))\<rparr>)"
    by (simp add: after_upload_def up final_state_single pp)
  with assms(5) have tr: "tr = ?tr"
    and res: "res = (if \<not> db_ok e 2 then database_error
       else \<lparr>status = 200, payload = MessageItem ''Photo updated'' (first_row (select_by_id ?s2 i))\<rparr>)"
    by simp_all
  have fin: "final_state st tr = ?s2"
    by (simp add: tr final_state_def)
  have gone: "unlink_ok e \<longrightarrow> ?old \<notin> files ?s1"
    by (simp add: fs_unlink_def)
  have r200: "db_ok e 2 \<longrightarrow> res = \<lparr>status = 200,
            payload = MessageItem ''Photo updated'' (Some (item\<lparr>row_photo := Some f\<rparr>))\<rparr>"
    by (simp add: res sel2 first_row_def)
  have after: "select_by_id (final_state st tr) i = map (\<lambda>r. r\<lparr>row_photo := Some f\<rparr>) (item # rest)"
    by (simp only: fin sel2)
  show ?thesis
    by (intro conjI tr sel1 gone after r200)
qed

theorem put_photo_replace_order_witness:
  "handle all_ok default_options with_photo (PutPhoto 3 (Some ''77aa'')) =
     ([(FsWrite ''./cache/77aa'', with_photo\<lparr>files := {''./cache/77aa'', ''./cache/3f9c''}\<rparr>),
       (FsUnlink ''./cache/3f9c'', with_photo\<lparr>files := {''./cache/77aa''}\<rparr>),
       (DbUpdatePhoto 3 ''77aa'',
        \<lparr>inventory = inventory init_sql @
           [\<lparr>row_id = 3, row_name = ''Desk Lamp'', row_description = Some ''Brass'',
             row_photo = Some ''77aa''\<rparr>],
         auto_increment = 4, files = {''./cache/77aa''}\<rparr>)],
      \<lparr>status = 200,
       payload = MessageItem ''Photo updated''
         (Some \<lparr>row_id = 3, row_name = ''Desk Lamp'', row_description = Some ''Brass'',
                row_photo = Some ''77aa''\<rparr>)\<rparr>)"
proof -
  let ?item = "\<lparr>row_id = 3, row_name = ''Desk Lamp'', row_description = Some ''Brass'',
                 row_photo = Some ''3f9c''\<rparr>"
  have ok: "db_ok all_ok 0" "db_ok all_ok 1" "db_ok all_ok 2" "unlink_ok all_ok"
    by (simp_all add: all_ok_def)
  have sel: "select_by_id with_photo 3 = ?item # []"
    by (simp add: select_by_id_def with_photo_def init_sql_def)
  have t: "truthy (row_photo ?item)"
    by (simp add: truthy_def)
  have h: "handle all_ok default_options with_photo (PutPhoto 3 (Some ''77aa'')) =
     ([(FsWrite ''./cache/77aa'', with_photo\<lparr>files := {''./cache/77aa'', ''./cache/3f9c''}\<rparr>),
       (FsUnlink ''./cache/3f9c'', with_photo\<lparr>files := {''./cache/77aa''}\<rparr>),
       (DbUpdatePhoto 3 ''77aa'',
        \<lparr>inventory = inventory init_sql @
           [\<lparr>row_id = 3, row_name = ''Desk Lamp'', row_description = Some ''Brass'',
             row_photo = Some ''77aa''\<rparr>],
         auto_increment = 4, files = {''./cache/77aa''}\<rparr>)],
      \<lparr>status = 200,
       payload = MessageItem ''Photo updated''
         (Some \<lparr>row_id = 3, row_name = ''Desk Lamp'', row_description = Some ''Brass'',
                row_photo = Some ''77aa''\<rparr>)\<rparr>)"
    by (simp add: handler_defs stmt_defs value_defs sample_defs insert_Diff_if)
  note put_photo_replace_order [OF ok(1) ok(2) sel t h]
  then show ?thesis
    using h by simp
qed

subsection \<open>Deleting an item\<close>

text \<open>
  C2, as claimed, says that the row is deleted first and the blob only then. The handler
  issues the deletion of the file first: for the item with photo \<open>3f9c\<close> the effects
  are the deletion of the file, then the DELETE statement, and in the state after the
  first effect the id still resolves to its row while the file is gone.
\<close>

theorem delete_item_unlinks_before_delete:
  "map fst (fst (handle all_ok default_options with_photo (DeleteItem 3))) =
     [FsUnlink ''./cache/3f9c'', DbDelete 3] \<and>
   map row_id (select_by_id
     (snd (fst (handle all_ok default_options with_photo (DeleteItem 3)) ! 0)) 3) = [3] \<and>
   ''./cache/3f9c'' \<notin> files
     (snd (fst (handle all_ok default_options with_photo (DeleteItem 3)) ! 0))"
  by (simp add: handler_defs stmt_defs value_defs sample_defs)

text \<open>
  C2, amended. DELETE /inventory/:id on an existing item, the SELECT and the DELETE being
  executed: when the item has a photo the handler first issues the deletion of its blob,
  with the row still in the table, and then deletes the row; when it has none it only
  deletes the row. Whether or not the file system carries the deletion out, the response
  is 200 and no row of that id is left.
\<close>

theorem delete_item_order:
  assumes "db_ok e 0" and "db_ok e 1"
    and "select_by_id st i = item # rest"
    and "handle e opts st (DeleteItem i) = (tr, res)"
  shows "res = \<lparr>status = 200, payload = Message ''Item deleted successfully''\<rparr> \<and>
         select_by_id (final_state st tr) i = [] \<and>
         (truthy (row_photo item) \<longrightarrow>
            tr = [(FsUnlink (path_join (cache opts) (col_or_empty (row_photo item))),
                   fs_unlink e st (path_join (cache opts) (col_or_empty (row_photo item)))),
                  (DbDelete i,
                   delete_row (fs_unlink e st (path_join (cache opts) (col_or_empty (row_photo item)))) i)] \<and>
            select_by_id (fs_unlink e st (path_join (cache opts) (col_or_empty (row_photo item)))) i =
              item # rest \<and>
            (unlink_ok e \<longrightarrow> path_join (cache opts) (col_or_empty (row_photo item)) \<notin>
               files (fs_unlink e st (path_join (cache opts) (col_or_empty (row_photo item)))))) \<and>
         (\<not> truthy (row_photo item) \<longrightarrow> tr = [(DbDelete i, delete_row st i)])"
proof -
  let ?p = "path_join (cache opts) (col_or_empty (row_photo item))"
  let ?s1 = "final_state st (unlink_photo e opts st item)"
  have h: "handle e opts st (DeleteItem i) =
      (unlink_photo e opts st item @ [(DbDelete i, delete_row ?s1 i)],
       \<lparr>status = 200, payload = Message ''Item deleted successfully''\<rparr>)"
    using assms(1,2,3) by (simp add: delete_item_def Let_def)
  with assms(4) have tr: "tr = unlink_photo e opts st item @ [(DbDelete i, delete_row ?s1 i)]"
    and res: "res = \<lparr>status = 200, payload = Message ''Item deleted successfully''\<rparr>"
    by simp_all
  have gone: "select_by_id (final_state st tr) i = []"
    by (simp add: tr final_state_def select_by_id_delete_row)
  have still: "select_by_id (fs_unlink e st ?p) i = item # rest"
    using assms(3) by (simp only: select_by_id_fs_unlink)
  have removed: "unlink_ok e \<longrightarrow> ?p \<notin> files (fs_unlink e st ?p)"
    by (simp add: fs_unlink_def)
  have has: "truthy (row_photo item) \<longrightarrow>
            tr = [(FsUnlink ?p, fs_unlink e st ?p), (DbDelete i, delete_row (fs_unlink e st ?p) i)] \<and>
            select_by_id (fs_unlink e st ?p) i = item # rest \<and>
            (unlink_ok e \<longrightarrow> ?p \<notin> files (fs_unlink e st ?p))"
    using still removed by (simp add: tr unlink_photo_def final_state_def)
  have without: "\<not> truthy (row_photo item) \<longrightarrow> tr = [(DbDelete i, delete_row st i)]"
    by (simp add: tr unlink_photo_def final_state_def)
  show ?thesis
    by (intro conjI res gone has without)
qed

theorem delete_item_order_witness:
  "handle (all_ok\<lparr>unlink_ok := False\<rparr>) default_options with_photo (DeleteItem 3) =
     ([(FsUnlink ''./cache/3f9c'', with_photo),
       (DbDelete 3, \<lparr>inventory = inventory init_sql, auto_increment = 4, files = {''./cache/3f9c''}\<rparr>)],
      \<lparr>status = 200, payload = Message ''Item deleted successfully''\<rparr>) \<and>
   handle all_ok default_options with_photo (DeleteItem 3) =
     ([(FsUnlink ''./cache/3f9c'', with_photo\<lparr>files := {}\<rparr>),
       (DbDelete 3, \<lparr>inventory = inventory init_sql, auto_increment = 4, files = {}\<rparr>)],
      \<lparr>status = 200, payload = Message ''Item deleted successfully''\<rparr>)"
proof -
  let ?item = "\<lparr>row_id = 3, row_name = ''Desk Lamp'', row_description = Some ''Brass'',
                 row_photo = Some ''3f9c''\<rparr>"
  have ok: "db_ok all_ok 0" "db_ok all_ok 1"
    "db_ok (all_ok\<lparr>unlink_ok := False\<rparr>) 0" "db_ok (all_ok\<lparr>unlink_ok := False\<rparr>) 1"
    by (simp_all add: all_ok_def)
  have sel: "select_by_id with_photo 3 = ?item # []"
    by (simp add: select_by_id_def with_photo_def init_sql_def)
  have a: "handle (all_ok\<lparr>unlink_ok := False\<rparr>) default_options with_photo (DeleteItem 3) =
     ([(FsUnlink ''./cache/3f9c'', with_photo),
       (DbDelete 3, \<lparr>inventory = inventory init_sql, auto_increment = 4, files = {''./cache/3f9c''}\<rparr>)],
      \<lparr>status = 200, payload = Message ''Item deleted successfully''\<rparr>)"
    by (simp add: handler_defs stmt_defs value_defs sample_defs)
  have b: "handle all_ok default_options with_photo (DeleteItem 3) =
     ([(FsUnlink ''./cache/3f9c'', with_photo\<lparr>files := {}\<rparr>),
       (DbDelete 3, \<lparr>inventory = inventory init_sql, auto_increment = 4, files = {}\<rparr>)],
      \<lparr>status = 200, payload = Message ''Item deleted successfully''\<rparr>)"
    by (simp add: handler_defs stmt_defs value_defs sample_defs)
  note delete_item_order [OF ok(3) ok(4) sel a] delete_item_order [OF ok(1) ok(2) sel b]
  then show ?thesis
    using a b by simp
qed

subsection \<open>Partial update\<close>

text \<open>
  Without a body the handler throws at line 107 and sends no statement. An absent field
  makes the driver refuse the UPDATE: nothing is changed. A null field keeps its column.
\<close>

lemma put_item_without_body:
  "handle e opts st (PutItem i NoBody) = ([], \<lparr>status = 500, payload = ErrorPage\<rparr>)"
  by (simp add: put_item_def uncaught_type_error_def)

lemma put_item_absent_field:
  assumes "name = Undefined \<or> description = Undefined"
  shows "fst (handle e opts st (PutItem i (Body (name, description)))) = [] \<and>
         status (snd (handle e opts st (PutItem i (Body (name, description))))) \<in> {404, 500}"
  using assms by (auto simp: put_item_def database_error_def item_not_found_def)

lemma put_item_null_field:
  assumes "handle e opts st (PutItem i (Body (name, description))) = (tr, res)"
  shows "(name = Null \<longrightarrow> map row_name (inventory (final_state st tr)) = map row_name (inventory st)) \<and>
         (description = Null \<longrightarrow>
            map row_description (inventory (final_state st tr)) = map row_description (inventory st))"
proof -
  have "final_state st tr = st \<or> final_state st tr = update_row st i name description"
    using assms by (auto simp: put_item_def final_state_def Let_def split: if_splits)
  moreover have "name = Null \<longrightarrow> map row_name (inventory (update_row st i name description)) = map row_name (inventory st)"
    by (simp add: update_row_def coalesce_name_def comp_def)
  moreover have "description = Null \<longrightarrow> map row_description (inventory (update_row st i name description)) = map row_description (inventory st)"
    by (simp add: update_row_def coalesce_description_def comp_def)
  ultimately show ?thesis by auto
qed

text \<open>
  On the empty string the two variants of the handler part: the in-memory one keeps the
  field, COALESCE stores the empty string.
\<close>

lemma in_memory_keeps_on_empty: "assign_if_truthy (Val []) old = old"
  by (simp add: assign_if_truthy_def)

lemma coalesce_stores_empty:
  "coalesce_name (Val []) old = [] \<and> coalesce_description (Val []) (Some d) = Some []"
  by (simp add: coalesce_name_def coalesce_description_def)

text \<open>
  C3 says that an empty-string argument of PUT /inventory/:id leaves the stored field
  unchanged, so that a description cannot be cleared. On the first row of init.sql, a
  request with the row's own name and the empty string as description is answered 200
  and stores the empty description.
\<close>

theorem put_item_empty_description_stored:
  "handle all_ok default_options init_sql (PutItem 1 (Body (Val ''Blue Lady Painting'', Val []))) =
     ([(DbUpdate 1,
        init_sql\<lparr>inventory :=
          [\<lparr>row_id = 1, row_name = ''Blue Lady Painting'', row_description = Some [],
            row_photo = None\<rparr>,
           \<lparr>row_id = 2, row_name = ''Antique Vase'',
            row_description = Some ''Chinese vase from Ming Dynasty, 18th century'',
            row_photo = None\<rparr>]\<rparr>)],
      \<lparr>status = 200,
       payload = MessageItem ''Item updated successfully''
         (Some \<lparr>row_id = 1, row_name = ''Blue Lady Painting'', row_description = Some [],
                row_photo = None\<rparr>)\<rparr>)"
  by (simp add: handler_defs stmt_defs value_defs sample_defs)

end
